theory Spec2Isabelle
  imports Complex_Main
begin

section \<open>Common conventions\<close>

text \<open>
  The development embeds the Python modules of the real-time subtitle pipeline:
  \<^verbatim>\<open>modules/translation.py\<close>, \<^verbatim>\<open>modules/language_detection.py\<close>,
  \<^verbatim>\<open>modules/subtitle_renderer.py\<close>, \<^verbatim>\<open>modules/audio_capture.py\<close>,
  \<^verbatim>\<open>modules/speech_to_text.py\<close> and \<^verbatim>\<open>modules/realtime_subtitle_system.py\<close>.

  \<^item> An object is a record of the fields its methods read or write; a method takes the
    object and returns the updated object together with its result.
  \<^item> A Python exception is a value of \<open>error\<close>; a method result is \<open>error + 'a\<close> with
    \<open>Inl\<close> for an exception that leaves the method. An exception does not undo the
    assignments made before it, so the updated object is returned beside the result.
  \<^item> The remote services and the clock are inputs: a function from the request to the
    reply stands for \<^verbatim>\<open>requests.post\<close>, and every method that posts returns the list
    of requests it has issued.
  \<^item> A Python \<^verbatim>\<open>str\<close> is a \<open>string\<close> whose characters stand for code points below 256.
  \<^item> \<^verbatim>\<open>time.time()\<close> is a \<open>real\<close> number of seconds; a method that reads the clock
    takes the reading as its argument \<open>now\<close>, one reading for the whole call.
\<close>

datatype error =
    NameError | AttributeError | KeyError | TypeError
  | JSONDecodeError | RequestException | SpeechSdkError

text \<open>\<^verbatim>\<open>str.isspace\<close> on the code points below 256, and \<^verbatim>\<open>str.strip()\<close>.\<close>

definition isspace :: "char \<Rightarrow> bool" where
  "isspace c = (of_char c \<in> {9, 10, 11, 12, 13, 28, 29, 30, 31, 32, 133, 160 :: nat})"

definition strip :: "string \<Rightarrow> string" where
  "strip s = rev (dropWhile isspace (rev (dropWhile isspace s)))"

section \<open>modules/translation.py\<close>

record Translation =
  target_language :: string

record translation_result =
  translated_text :: string
  original_text :: string

text \<open>
  The request of \<open>translate_text\<close>: the body text and the \<^verbatim>\<open>from\<close> and \<^verbatim>\<open>to\<close>
  parameters (the key, region and trace id of the headers play no part in the result).
\<close>

record translate_request =
  req_text :: string
  req_from :: string
  req_to :: string

text \<open>
  What \<^verbatim>\<open>requests.post\<close> and \<^verbatim>\<open>response.json()\<close> give back. \<open>PostRaised\<close>: the post
  raises. \<open>Reply status None\<close>: the body is not JSON. \<open>Reply status (Some body)\<close>: the
  body is \<open>Items xs\<close>, a JSON list whose elements are objects, each with its
  \<^verbatim>\<open>translations\<close> member if it has one (a list of objects, each with its \<^verbatim>\<open>text\<close>
  member if it has one), or \<open>Unexpected\<close>, any other JSON value: on such a value
  the condition of the \<^verbatim>\<open>if\<close> raises or is false, and both ways end in the
  pass-through result; the model lets it raise.
\<close>

datatype translate_body = Items "string option list option list" | Unexpected

datatype translate_reply = PostRaised | Reply int "translate_body option"

text \<open>The statements of the \<^verbatim>\<open>try\<close> block, from \<^verbatim>\<open>response.json()\<close> on.\<close>

definition translate_response :: "string \<Rightarrow> translate_reply \<Rightarrow> error + translation_result" where
  "translate_response text reply =
     (case reply of
        PostRaised \<Rightarrow> Inl RequestException
      | Reply status_code None \<Rightarrow> Inl JSONDecodeError
      | Reply status_code (Some response_json) \<Rightarrow>
          if status_code \<noteq> 200 then Inr \<lparr>translated_text = text, original_text = text\<rparr>
          else (case response_json of
            Unexpected \<Rightarrow> Inl TypeError
          | Items [] \<Rightarrow> Inr \<lparr>translated_text = text, original_text = text\<rparr>
          | Items (None # _) \<Rightarrow> Inr \<lparr>translated_text = text, original_text = text\<rparr>
          | Items (Some [] # _) \<Rightarrow> Inr \<lparr>translated_text = text, original_text = text\<rparr>
          | Items (Some (None # _) # _) \<Rightarrow> Inl KeyError
          | Items (Some (Some t # _) # _) \<Rightarrow>
              Inr \<lparr>translated_text = t, original_text = text\<rparr>))"

text \<open>
  \<^verbatim>\<open>translate_text\<close>. The result is paired with the requests posted. The \<^verbatim>\<open>except\<close>
  clause turns every exception of the block into the pass-through result.
\<close>

definition translate_text ::
  "(translate_request \<Rightarrow> translate_reply) \<Rightarrow> Translation \<Rightarrow> string \<Rightarrow> string
     \<Rightarrow> (error + translation_result) \<times> translate_request list" where
  "translate_text post self text source_language =
     (if text = [] \<or> strip text = [] then
        (Inr \<lparr>translated_text = [], original_text = text\<rparr>, [])
      else if source_language = target_language self then
        (Inr \<lparr>translated_text = text, original_text = text\<rparr>, [])
      else
        let request = \<lparr>req_text = text, req_from = source_language,
                         req_to = target_language self\<rparr>
        in (case translate_response text (post request) of
              Inr result \<Rightarrow> (Inr result, [request])
            | Inl e \<Rightarrow> (Inr \<lparr>translated_text = text, original_text = text\<rparr>, [request])))"

section \<open>modules/language_detection.py\<close>

record hypothesis =
  language_code :: string
  confidence :: real

record LanguageDetection =
  cached_language :: "hypothesis option"
  confidence_threshold :: real
  cache_expiry :: real
  last_detection_time :: real

text \<open>The fields as \<^verbatim>\<open>__init__\<close> sets them.\<close>

definition LanguageDetection_init :: LanguageDetection where
  "LanguageDetection_init =
     \<lparr>cached_language = None, confidence_threshold = 0.7, cache_expiry = 60,
      last_detection_time = 0\<rparr>"

text \<open>
  The reply of the language service. \<open>DetectRaised\<close>: the post raises.
  \<open>DetectReply status None\<close>: the body is not JSON. Otherwise the body is
  \<open>Documents None\<close>, an object without a \<^verbatim>\<open>documents\<close> member,
  \<open>Documents (Some ds)\<close>, an object whose \<^verbatim>\<open>documents\<close> member is a list of objects,
  each with its \<^verbatim>\<open>detectedLanguage\<close> member if it has one, or \<open>UnexpectedBody\<close>,
  any other JSON value (the condition of the \<^verbatim>\<open>if\<close> raises or is false on it, and
  both ways end in the same \<^verbatim>\<open>return\<close>; the model lets it raise). A detected
  language carries its \<^verbatim>\<open>iso6391Name\<close> and \<^verbatim>\<open>confidenceScore\<close> members, each if present.
\<close>

record detected_language =
  iso6391Name :: "string option"
  confidenceScore :: "real option"

datatype detect_body = Documents "detected_language option list option" | UnexpectedBody

datatype detect_reply = DetectRaised | DetectReply int "detect_body option"

definition default_hypothesis :: hypothesis where
  "default_hypothesis = \<lparr>language_code = ''en'', confidence = 1.0\<rparr>"

text \<open>\<^verbatim>\<open>self.cached_language or {"language_code": "en", "confidence": 1.0}\<close>\<close>

definition cached_or_default :: "LanguageDetection \<Rightarrow> hypothesis" where
  "cached_or_default self =
     (case cached_language self of Some h \<Rightarrow> h | None \<Rightarrow> default_hypothesis)"

text \<open>
  The \<^verbatim>\<open>try\<close> block of \<open>detect_language\<close> from \<^verbatim>\<open>response.json()\<close> on, at clock
  reading \<open>now\<close>. The cache is assigned only after both members of the detected
  language have been read.
\<close>

definition detect_response ::
  "real \<Rightarrow> LanguageDetection \<Rightarrow> detect_reply \<Rightarrow> error + hypothesis \<times> LanguageDetection" where
  "detect_response now self reply =
     (case reply of
        DetectRaised \<Rightarrow> Inl RequestException
      | DetectReply status_code None \<Rightarrow> Inl JSONDecodeError
      | DetectReply status_code (Some response_json) \<Rightarrow>
          if status_code \<noteq> 200 then Inr (cached_or_default self, self)
          else (case response_json of
            UnexpectedBody \<Rightarrow> Inl TypeError
          | Documents None \<Rightarrow> Inr (cached_or_default self, self)
          | Documents (Some []) \<Rightarrow> Inr (cached_or_default self, self)
          | Documents (Some (None # _)) \<Rightarrow> Inr (cached_or_default self, self)
          | Documents (Some (Some detected # _)) \<Rightarrow>
              (case confidenceScore detected of
                 None \<Rightarrow> Inl KeyError
               | Some c \<Rightarrow>
                   if c > confidence_threshold self then
                     (case iso6391Name detected of
                        None \<Rightarrow> Inl KeyError
                      | Some name \<Rightarrow>
                          let h = \<lparr>language_code = name, confidence = c\<rparr>
                          in Inr (h, self\<lparr>cached_language := Some h,
                                          last_detection_time := now\<rparr>))
                   else Inr (cached_or_default self, self))))"

text \<open>
  \<open>detect_language\<close> at clock reading \<open>now\<close>: the result, the updated tracker and the
  texts posted to the language service.
\<close>

definition detect_language ::
  "(string \<Rightarrow> detect_reply) \<Rightarrow> real \<Rightarrow> LanguageDetection \<Rightarrow> string
     \<Rightarrow> (error + hypothesis) \<times> LanguageDetection \<times> string list" where
  "detect_language post now self text =
     (if text = [] \<or> length (strip text) < 10
         \<or> (now - last_detection_time self < cache_expiry self \<and> cached_language self \<noteq> None)
      then (Inr (cached_or_default self), self, [])
      else (case detect_response now self (post text) of
              Inr (h, self') \<Rightarrow> (Inr h, self', [text])
            | Inl e \<Rightarrow> (Inr (cached_or_default self), self, [text])))"

section \<open>modules/subtitle_renderer.py\<close>

text \<open>
  The Tk window behind \<^verbatim>\<open>self.root\<close>, as far as the renderer uses it: the callbacks
  registered with \<^verbatim>\<open>after\<close> that are still pending, each with its identifier and the
  time it falls due, and whether the window is withdrawn. Every callback the renderer
  registers is \<^verbatim>\<open>self.fade_oldest_subtitle\<close>.
\<close>

record tk_window =
  after_serial :: nat
  after_pending :: "(nat \<times> real) list"
  withdrawn :: bool

definition tk_after :: "real \<Rightarrow> int \<Rightarrow> tk_window \<Rightarrow> nat \<times> tk_window" where
  "tk_after now ms w =
     (after_serial w,
      w\<lparr>after_serial := Suc (after_serial w),
        after_pending := after_pending w @ [(after_serial w, now + real_of_int ms / 1000)]\<rparr>)"

definition tk_after_cancel :: "nat \<Rightarrow> tk_window \<Rightarrow> tk_window" where
  "tk_after_cancel i w = w\<lparr>after_pending := filter (\<lambda>p. fst p \<noteq> i) (after_pending w)\<rparr>"

text \<open>
  The slice \<^verbatim>\<open>xs[k:]\<close>: a negative \<open>k\<close> counts from the end, and the start is clamped
  to the list. In particular \<^verbatim>\<open>xs[-0:]\<close> is \<^verbatim>\<open>xs[0:]\<close>, the whole list.
\<close>

definition slice_from :: "int \<Rightarrow> 'a list \<Rightarrow> 'a list" where
  "slice_from k xs =
     (if k < 0 then drop (nat (int (length xs) + k)) xs else drop (nat k) xs)"

record subtitle =
  sub_text :: string
  sub_speaker :: "string option"
  timestamp :: real

text \<open>
  The delay of the fade callback is \<^verbatim>\<open>int(self.fade_timeout * 1000)\<close>, the product of
  two doubles rounded towards zero. The model does not compute in doubles (the product
  can fall just below the exact one), so the renderer carries the value of that
  expression beside the timeout, as \<open>fade_delay_ms\<close>: 5000 for the timeout 5.0.
\<close>

record SubtitleRenderer =
  fade_timeout :: real
  fade_delay_ms :: int
  max_lines :: int
  subtitles :: "subtitle list"
  fade_timer :: "nat option"
  root :: "tk_window option"
  subtitle_labels :: "string list"

text \<open>
  \<^verbatim>\<open>__init__\<close>, with the values \<^verbatim>\<open>config.get\<close> finds for \<^verbatim>\<open>fade_timeout\<close> and
  \<^verbatim>\<open>max_lines\<close> (5.0 and 2 when the configuration has none), and the delay in
  milliseconds that belongs to the timeout.
\<close>

definition SubtitleRenderer_init :: "real \<Rightarrow> int \<Rightarrow> int \<Rightarrow> SubtitleRenderer" where
  "SubtitleRenderer_init timeout delay_ms lines =
     \<lparr>fade_timeout = timeout, fade_delay_ms = delay_ms, max_lines = lines, subtitles = [],
      fade_timer = None, root = None, subtitle_labels = []\<rparr>"

text \<open>
  \<open>initialize\<close>, Tk itself not failing: the root is the parent window if one is given
  and a new, withdrawn window otherwise; \<^verbatim>\<open>range(self.max_lines)\<close> labels are added.
\<close>

definition initialize :: "tk_window option \<Rightarrow> SubtitleRenderer \<Rightarrow> bool \<times> SubtitleRenderer" where
  "initialize parent_window self =
     (let w = (case parent_window of
                 Some p \<Rightarrow> p
               | None \<Rightarrow> \<lparr>after_serial = 0, after_pending = [], withdrawn = True\<rparr>)
      in (True, self\<lparr>root := Some w,
                     subtitle_labels :=
                       subtitle_labels self @ replicate (nat (max_lines self)) []\<rparr>))"

definition display_text :: "subtitle \<Rightarrow> string" where
  "display_text s =
     (case sub_speaker s of
        None \<Rightarrow> sub_text s
      | Some name \<Rightarrow> if name = [] then sub_text s else name @ '': '' @ sub_text s)"

definition update_subtitle_display :: "SubtitleRenderer \<Rightarrow> SubtitleRenderer" where
  "update_subtitle_display self =
     self\<lparr>subtitle_labels :=
       map (\<lambda>i. if i < length (subtitles self) then display_text (subtitles self ! i) else [])
         [0..<length (subtitle_labels self)]\<rparr>"

text \<open>
  \<^verbatim>\<open>if self.fade_timer: self.root.after_cancel(self.fade_timer); self.fade_timer = None\<close>,
  the opening of \<open>show_subtitle\<close> and a step of \<open>clear\<close>.
\<close>

definition cancel_fade_timer :: "SubtitleRenderer \<Rightarrow> error + SubtitleRenderer" where
  "cancel_fade_timer self =
     (case fade_timer self of
        None \<Rightarrow> Inr self
      | Some i \<Rightarrow>
          (case root self of
             None \<Rightarrow> Inl AttributeError
           | Some w \<Rightarrow> Inr (self\<lparr>root := Some (tk_after_cancel i w), fade_timer := None\<rparr>)))"

text \<open>
  \<open>show_subtitle\<close> at clock reading \<open>now\<close>. The name \<^verbatim>\<open>parent_window\<close> in the
  condition after \<^verbatim>\<open>self.update_subtitle_display()\<close> is bound neither in the method nor
  in the module (it is a parameter of \<open>initialize\<close> only), so evaluating the condition
  raises \<^verbatim>\<open>NameError\<close>: the statements after it, which would show the window and
  register the fade callback, are never reached.
\<close>

definition show_subtitle ::
  "real \<Rightarrow> string \<Rightarrow> string option \<Rightarrow> SubtitleRenderer \<Rightarrow> (error + unit) \<times> SubtitleRenderer" where
  "show_subtitle now text speaker self =
     (case cancel_fade_timer self of
        Inl e \<Rightarrow> (Inl e, self)
      | Inr s1 \<Rightarrow>
          let s2 = s1\<lparr>subtitles := subtitles s1 @
                         [\<lparr>sub_text = text, sub_speaker = speaker, timestamp = now\<rparr>]\<rparr>;
              s3 = (if int (length (subtitles s2)) > max_lines s2
                    then s2\<lparr>subtitles := slice_from (- max_lines s2) (subtitles s2)\<rparr>
                    else s2)
          in (Inl NameError, update_subtitle_display s3))"

text \<open>
  \<open>fade_oldest_subtitle\<close> at clock reading \<open>now\<close>. When the last line goes, the branch
  that would hide the window evaluates \<^verbatim>\<open>parent_window\<close> and raises in the same way.
\<close>

definition fade_oldest_subtitle ::
  "real \<Rightarrow> SubtitleRenderer \<Rightarrow> (error + unit) \<times> SubtitleRenderer" where
  "fade_oldest_subtitle now self =
     (if subtitles self = [] then (Inr (), self)
      else
        let s1 = update_subtitle_display (self\<lparr>subtitles := tl (subtitles self)\<rparr>)
        in if subtitles s1 \<noteq> [] then
             (case root s1 of
                None \<Rightarrow> (Inl AttributeError, s1)
              | Some w \<Rightarrow>
                  let (i, w') = tk_after now (fade_delay_ms s1) w
                  in (Inr (), s1\<lparr>root := Some w', fade_timer := Some i\<rparr>))
           else (Inl NameError, s1\<lparr>fade_timer := None\<rparr>))"


text \<open>
  The Tk main loop at time \<open>now\<close>: the first pending callback that has fallen due, if
  there is one, leaves the pending list and runs.
\<close>

definition run_due_timer :: "real \<Rightarrow> SubtitleRenderer \<Rightarrow> (error + unit) \<times> SubtitleRenderer" where
  "run_due_timer now self =
     (case root self of
        None \<Rightarrow> (Inr (), self)
      | Some w \<Rightarrow>
          (case filter (\<lambda>p. snd p \<le> now) (after_pending w) of
             [] \<Rightarrow> (Inr (), self)
           | p # _ \<Rightarrow>
               fade_oldest_subtitle now (self\<lparr>root := Some (tk_after_cancel (fst p) w)\<rparr>)))"

section \<open>modules/audio_capture.py\<close>

text \<open>\<open>stream\<close> tells whether \<^verbatim>\<open>self.stream\<close> has been opened.\<close>

record AudioCapture =
  stream :: bool
  is_recording :: bool

text \<open>\<open>opens\<close>: whether \<^verbatim>\<open>self.audio.open\<close> returns (it raises otherwise).\<close>

definition initialize_microphone_capture :: "bool \<Rightarrow> AudioCapture \<Rightarrow> bool \<times> AudioCapture" where
  "initialize_microphone_capture opens self =
     (if opens then (True, self\<lparr>stream := True\<rparr>) else (False, self))"

definition start_recording :: "AudioCapture \<Rightarrow> bool \<times> AudioCapture" where
  "start_recording self =
     (if stream self \<and> \<not> is_recording self then (True, self\<lparr>is_recording := True\<rparr>)
      else (False, self))"


section \<open>modules/speech_to_text.py\<close>

text \<open>\<open>recognizer\<close> tells whether \<^verbatim>\<open>self.recognizer\<close> has been created.\<close>

record SpeechToText =
  recognizer :: bool
  is_recognizing :: bool
  speech_recognition_language :: string

record transcription_result =
  result_text :: string
  is_final :: bool
  result_language_code :: string

definition language_map :: "string \<Rightarrow> string option" where
  "language_map =
     [''en'' \<mapsto> ''en-US'', ''es'' \<mapsto> ''es-ES'', ''fr'' \<mapsto> ''fr-FR'',
      ''de'' \<mapsto> ''de-DE'', ''ja'' \<mapsto> ''ja-JP'', ''zh'' \<mapsto> ''zh-CN'']"

definition stop_recognition :: "SpeechToText \<Rightarrow> SpeechToText" where
  "stop_recognition self =
     (if recognizer self \<and> is_recognizing self then self\<lparr>is_recognizing := False\<rparr> else self)"

definition set_language :: "string \<Rightarrow> SpeechToText \<Rightarrow> SpeechToText" where
  "set_language code self =
     (let s1 = (if recognizer self then stop_recognition self else self)
      in s1\<lparr>speech_recognition_language :=
              (case language_map code of Some full \<Rightarrow> full | None \<Rightarrow> code)\<rparr>)"

text \<open>
  How the speech SDK answers \<open>start_recognition\<close>: it works, or creating the
  recognizer raises, or \<^verbatim>\<open>start_continuous_recognition\<close> raises.
\<close>

datatype sdk_outcome = SdkStarts | CreateRaises | StartRaises

definition start_recognition :: "sdk_outcome \<Rightarrow> SpeechToText \<Rightarrow> (error + unit) \<times> SpeechToText" where
  "start_recognition sdk self =
     (let s1 = (if is_recognizing self then stop_recognition self else self)
      in (case sdk of
            CreateRaises \<Rightarrow> (Inl SpeechSdkError, s1)
          | StartRaises \<Rightarrow> (Inl SpeechSdkError, s1\<lparr>recognizer := True\<rparr>)
          | SdkStarts \<Rightarrow> (Inr (), s1\<lparr>recognizer := True, is_recognizing := True\<rparr>)))"


definition recognized_callback :: "SpeechToText \<Rightarrow> bool \<Rightarrow> string \<Rightarrow> transcription_result option" where
  "recognized_callback self recognized_speech event_text =
     (if recognized_speech then
        Some \<lparr>result_text = event_text, is_final = True,
              result_language_code = speech_recognition_language self\<rparr>
      else None)"

section \<open>modules/realtime_subtitle_system.py\<close>

text \<open>
  The calls the orchestrator makes on its modules. The field \<open>calls\<close> of the system
  lists them in the order they are made; it is an observation of the run, not a field
  of the Python object.
\<close>

datatype call =
    InitializeMicrophoneCapture | StartRecording | StopRecording
  | StartRecognition | StopRecognition | SetLanguage string
  | DetectLanguage string | TranslateText string string | ShowSubtitle string | Clear

record RealTimeSubtitleSystem =
  current_language :: string
  is_running :: bool
  audio_capture :: AudioCapture
  speech_to_text :: SpeechToText
  language_detection :: LanguageDetection
  translation :: Translation
  subtitle_renderer :: "SubtitleRenderer option"
  calls :: "call list"

text \<open>What a method of the orchestrator meets outside: the clock, the devices, the services.\<close>

record environment =
  clock :: real
  microphone_opens :: bool
  speech_sdk :: sdk_outcome
  language_service :: "string \<Rightarrow> detect_reply"
  translator_service :: "translate_request \<Rightarrow> translate_reply"

text \<open>
  The system after \<^verbatim>\<open>__init__\<close> and \<open>initialize\<close>, for a default and a target language.
  The renderer is created by the GUI thread, so it may still be missing.
\<close>

definition RealTimeSubtitleSystem_init ::
  "string \<Rightarrow> string \<Rightarrow> SubtitleRenderer option \<Rightarrow> RealTimeSubtitleSystem" where
  "RealTimeSubtitleSystem_init default_language target renderer =
     \<lparr>current_language = default_language, is_running = False,
      audio_capture = \<lparr>stream = False, is_recording = False\<rparr>,
      speech_to_text = \<lparr>recognizer = False, is_recognizing = False,
                        speech_recognition_language = default_language\<rparr>,
      language_detection = LanguageDetection_init,
      translation = \<lparr>target_language = target\<rparr>,
      subtitle_renderer = renderer, calls = []\<rparr>"

text \<open>The renderer as \<open>_init_subtitle_renderer\<close> builds it on its own Tk root.\<close>

definition init_subtitle_renderer :: SubtitleRenderer where
  "init_subtitle_renderer =
     snd (initialize (Some \<lparr>after_serial = 0, after_pending = [], withdrawn = False\<rparr>)
            (SubtitleRenderer_init 5.0 5000 2))"

definition start :: "environment \<Rightarrow> RealTimeSubtitleSystem \<Rightarrow> (error + bool) \<times> RealTimeSubtitleSystem" where
  "start env self =
     (if is_running self then (Inr False, self)
      else
        let (mic_initialized, a1) =
              initialize_microphone_capture (microphone_opens env) (audio_capture self);
            s1 = self\<lparr>audio_capture := a1, calls := calls self @ [InitializeMicrophoneCapture]\<rparr>
        in if \<not> mic_initialized then (Inr False, s1)
           else
             let (started, a2) = start_recording (audio_capture s1);
                 s2 = s1\<lparr>audio_capture := a2, calls := calls s1 @ [StartRecording]\<rparr>;
                 (r, t) = start_recognition (speech_sdk env) (speech_to_text s2);
                 s3 = s2\<lparr>speech_to_text := t, calls := calls s2 @ [StartRecognition]\<rparr>
             in (case r of
                   Inl e \<Rightarrow> (Inl e, s3)
                 | Inr u \<Rightarrow> (Inr True, s3\<lparr>is_running := True\<rparr>)))"


text \<open>
  The language step of \<open>_handle_transcription\<close>: the \<^verbatim>\<open>if is_final and len(text) > 15\<close>
  statement.
\<close>

definition detect_step ::
  "environment \<Rightarrow> transcription_result \<Rightarrow> RealTimeSubtitleSystem
     \<Rightarrow> (error + unit) \<times> RealTimeSubtitleSystem" where
  "detect_step env transcription self =
     (if is_final transcription \<and> length (result_text transcription) > 15 then
        let (r, tracker, posted) =
              detect_language (language_service env) (clock env) (language_detection self)
                (result_text transcription);
            s1 = self\<lparr>language_detection := tracker,
                      calls := calls self @ [DetectLanguage (result_text transcription)]\<rparr>
        in (case r of
              Inl e \<Rightarrow> (Inl e, s1)
            | Inr detected \<Rightarrow>
                if language_code detected \<noteq> current_language s1 then
                  (Inr (), s1\<lparr>current_language := language_code detected,
                              speech_to_text :=
                                set_language (language_code detected) (speech_to_text s1),
                              calls := calls s1 @ [SetLanguage (language_code detected)]\<rparr>)
                else (Inr (), s1))
      else (Inr (), self))"

text \<open>The rest of \<open>_handle_transcription\<close>: translate, then show.\<close>

definition translate_and_show ::
  "environment \<Rightarrow> transcription_result \<Rightarrow> RealTimeSubtitleSystem
     \<Rightarrow> (error + unit) \<times> RealTimeSubtitleSystem" where
  "translate_and_show env transcription self =
     (let (r, posted) =
            translate_text (translator_service env) (translation self)
              (result_text transcription) (current_language self);
          s1 = self\<lparr>calls := calls self @
                 [TranslateText (result_text transcription) (current_language self)]\<rparr>
      in (case r of
            Inl e \<Rightarrow> (Inl e, s1)
          | Inr translation_result \<Rightarrow>
              (case subtitle_renderer s1 of
                 None \<Rightarrow> (Inr (), s1)
               | Some renderer \<Rightarrow>
                   let (shown, renderer') =
                         show_subtitle (clock env) (translated_text translation_result) None
                           renderer
                   in (shown, s1\<lparr>subtitle_renderer := Some renderer',
                                  calls := calls s1 @
                                    [ShowSubtitle (translated_text translation_result)]\<rparr>))))"

definition handle_transcription ::
  "environment \<Rightarrow> transcription_result \<Rightarrow> RealTimeSubtitleSystem
     \<Rightarrow> (error + unit) \<times> RealTimeSubtitleSystem" where
  "handle_transcription env transcription self =
     (if \<not> is_running self \<or> result_text transcription = [] then (Inr (), self)
      else (case detect_step env transcription self of
              (Inl e, s1) \<Rightarrow> (Inl e, s1)
            | (Inr u, s1) \<Rightarrow> translate_and_show env transcription s1))"

section \<open>Observations and example configurations\<close>

text \<open>The translated text a call of \<open>translate_text\<close> returns, \<open>None\<close> if it raises.\<close>

definition translated :: "(error + translation_result) \<times> 'a \<Rightarrow> string option" where
  "translated r = (case fst r of Inr t \<Rightarrow> Some (translated_text t) | Inl e \<Rightarrow> None)"

text \<open>
  A reply of the language service read as its contract states it: a language code with
  a confidence, or a failure (\<open>None\<close>). A reply counts as a result when its status is
  200 and its first document carries a detected language with both members.
\<close>

definition reply_hypothesis :: "detect_reply \<Rightarrow> hypothesis option" where
  "reply_hypothesis reply =
     (case reply of
        DetectReply status_code (Some (Documents (Some (Some d # _)))) \<Rightarrow>
          (if status_code = 200 then
             (case (iso6391Name d, confidenceScore d) of
                (Some name, Some c) \<Rightarrow> Some \<lparr>language_code = name, confidence = c\<rparr>
              | _ \<Rightarrow> None)
           else None)
      | _ \<Rightarrow> None)"

text \<open>The caption lines the renderer holds, oldest first, as texts.\<close>

definition visible :: "SubtitleRenderer \<Rightarrow> string list" where
  "visible self = map sub_text (subtitles self)"

text \<open>The callbacks pending on the renderer's window.\<close>

definition pending_callbacks :: "SubtitleRenderer \<Rightarrow> (nat \<times> real) list" where
  "pending_callbacks self = (case root self of None \<Rightarrow> [] | Some w \<Rightarrow> after_pending w)"

text \<open>
  A caller that shows one caption after another, each at its own clock reading, and
  goes on after the exception each call raises.
\<close>

fun show_each :: "(real \<times> string) list \<Rightarrow> SubtitleRenderer \<Rightarrow> SubtitleRenderer" where
  "show_each [] self = self"
| "show_each ((now, caption) # rest) self =
     show_each rest (snd (show_subtitle now caption None self))"

text \<open>
  An environment in which everything works: the language service finds Spanish with
  confidence 0.9 and the translator answers \<^verbatim>\<open>hola\<close>.
\<close>

definition working_environment :: environment where
  "working_environment =
     \<lparr>clock = 0, microphone_opens = True, speech_sdk = SdkStarts,
      language_service = (\<lambda>t. DetectReply 200 (Some (Documents (Some
         [Some \<lparr>iso6391Name = Some ''es'', confidenceScore = Some 0.9\<rparr>])))),
      translator_service = (\<lambda>r. Reply 200 (Some (Items [Some [Some ''hola'']])))\<rparr>"

text \<open>
  A system with default language \<^verbatim>\<open>en\<close> and target \<^verbatim>\<open>es\<close> whose renderer exists,
  before and after a successful \<open>start\<close>.
\<close>

definition idle_system :: RealTimeSubtitleSystem where
  "idle_system = RealTimeSubtitleSystem_init ''en'' ''es'' (Some init_subtitle_renderer)"

definition running_system :: RealTimeSubtitleSystem where
  "running_system = snd (start working_environment idle_system)"

text \<open>The renderer of the fade example after \<^verbatim>\<open>A\<close>, \<^verbatim>\<open>B\<close>, \<^verbatim>\<open>C\<close> at 0, 1 and 2 seconds.\<close>

definition renderer_ABC :: SubtitleRenderer where
  "renderer_ABC = show_each [(0, ''A''), (1, ''B''), (2, ''C'')] init_subtitle_renderer"

text \<open>A tracker that found French 20 seconds before clock reading 120.\<close>

definition french_tracker :: LanguageDetection where
  "french_tracker =
     LanguageDetection_init\<lparr>cached_language := Some \<lparr>language_code = ''fr'', confidence = 0.95\<rparr>,
                            last_detection_time := 100\<rparr>"

section \<open>Properties of the translator\<close>

lemma strip_Nil: "strip [] = []"
  by (simp add: strip_def)

lemma length_strip_le: "length (strip s) \<le> length s"
proof -
  have "length (strip s) = length (dropWhile isspace (rev (dropWhile isspace s)))"
    by (simp add: strip_def)
  also have "\<dots> \<le> length (rev (dropWhile isspace s))"
    by (rule length_dropWhile_le)
  also have "\<dots> \<le> length s"
    by (simp add: length_dropWhile_le)
  finally show ?thesis .
qed


text \<open>
  Claim C7, as the code has it. When the source language equals the configured target
  language, \<open>translate_text\<close> posts nothing, whatever the text. It returns the text
  unchanged when the text has a character that is not whitespace, and the empty string
  when the text is empty or all whitespace: the blank-text guard comes first.
\<close>

theorem translate_same_language:
  "source_language = target_language self \<Longrightarrow>
     snd (translate_text post self text source_language) = []
   \<and> (strip text \<noteq> [] \<longrightarrow>
         translated (translate_text post self text source_language) = Some text)
   \<and> (strip text = [] \<longrightarrow>
         translated (translate_text post self text source_language) = Some [])"
  by (auto simp: translate_text_def translated_def)

theorem translate_same_language_witness:
  "''es'' = target_language \<lparr>target_language = ''es''\<rparr>
   \<and> strip ''Hola'' \<noteq> []
   \<and> snd (translate_text (\<lambda>r. PostRaised) \<lparr>target_language = ''es''\<rparr> ''Hola'' ''es'') = []
   \<and> translated (translate_text (\<lambda>r. PostRaised) \<lparr>target_language = ''es''\<rparr> ''Hola'' ''es'')
       = Some ''Hola''"
  using translate_same_language
    [of "''es''" "\<lparr>target_language = ''es''\<rparr>" "\<lambda>r. PostRaised" "''Hola''"]
  by (simp add: strip_def isspace_def)

text \<open>
  The claim as stated fails on a text of one space: source and target are both
  \<^verbatim>\<open>en\<close>, and the translated text is the empty string, not the space.
\<close>

theorem translate_same_language_counterexample:
  "translated (translate_text (\<lambda>r. PostRaised) \<lparr>target_language = ''en''\<rparr> '' '' ''en'')
     = Some ''''
   \<and> translated (translate_text (\<lambda>r. PostRaised) \<lparr>target_language = ''en''\<rparr> '' '' ''en'')
     \<noteq> Some '' ''"
  by (simp add: translate_text_def strip_def isspace_def translated_def)

text \<open>
  Claim C8, as the code has it. For a text that is empty or all whitespace,
  \<open>translate_text\<close> posts nothing and returns the empty string as the translated text,
  with the text itself as the original text. An empty text is thus returned unchanged,
  and a text of whitespace is replaced by the empty string.
\<close>

theorem translate_blank_text:
  "strip text = [] \<Longrightarrow>
     translate_text post self text source_language
       = (Inr \<lparr>translated_text = [], original_text = text\<rparr>, [])"
  by (simp add: translate_text_def)

theorem translate_blank_text_witness:
  "strip [] = []
   \<and> translate_text (\<lambda>r. PostRaised) \<lparr>target_language = ''en''\<rparr> [] ''es''
       = (Inr \<lparr>translated_text = [], original_text = []\<rparr>, [])"
  using translate_blank_text [of "[]" "\<lambda>r. PostRaised" "\<lparr>target_language = ''en''\<rparr>" "''es''"]
  by (simp add: strip_def)

text \<open>
  The claim as stated fails on a text of two spaces, from \<^verbatim>\<open>es\<close> to \<^verbatim>\<open>en\<close>: the
  translated text is the empty string, not the two spaces.
\<close>

theorem translate_blank_text_counterexample:
  "strip ''  '' = []
   \<and> translated (translate_text (\<lambda>r. PostRaised) \<lparr>target_language = ''en''\<rparr> ''  '' ''es'')
       \<noteq> Some ''  ''"
  by (simp add: translate_text_def strip_def isspace_def translated_def)


section \<open>Properties of the language tracker\<close>

lemma detect_response_cases:
  "detect_response now self reply = Inr (h, self') \<Longrightarrow>
     (h = cached_or_default self \<and> self' = self
        \<and> (case reply_hypothesis reply of
              None \<Rightarrow> True
            | Some g \<Rightarrow> confidence g \<le> confidence_threshold self))
   \<or> (reply_hypothesis reply = Some h \<and> confidence h > confidence_threshold self
        \<and> self' = self\<lparr>cached_language := Some h, last_detection_time := now\<rparr>)"
  unfolding detect_response_def reply_hypothesis_def
  by (auto simp: Let_def
        split: detect_reply.splits option.splits detect_body.splits list.splits if_splits)

text \<open>
  The two ways a call ends: the tracker is untouched and the cached hypothesis (or the
  default) comes back, or the text was long enough, no fresh hypothesis was cached, the
  service gave a result above the threshold, and that result is cached and returned.
\<close>

lemma detect_language_cases:
  assumes "detect_language post now self text = (r, self', posted)"
  shows "(r = Inr (cached_or_default self) \<and> self' = self)
       \<or> (\<not> length (strip text) < 10
            \<and> \<not> (now - last_detection_time self < cache_expiry self
                   \<and> cached_language self \<noteq> None)
            \<and> (\<exists>g. reply_hypothesis (post text) = Some g
                  \<and> confidence g > confidence_threshold self
                  \<and> r = Inr g
                  \<and> self' = self\<lparr>cached_language := Some g, last_detection_time := now\<rparr>))"
proof (cases "text = [] \<or> length (strip text) < 10
         \<or> (now - last_detection_time self < cache_expiry self
              \<and> cached_language self \<noteq> None)")
  case True
  with assms show ?thesis
    by (auto simp: detect_language_def)
next
  case False
  show ?thesis
  proof (cases "detect_response now self (post text)")
    case (Inl e)
    with False assms show ?thesis
      by (auto simp: detect_language_def)
  next
    case (Inr p)
    obtain h s where p: "p = (h, s)"
      by (cases p)
    from Inr False assms have rs: "r = Inr h" "self' = s"
      by (auto simp: detect_language_def p)
    from detect_response_cases [OF Inr [unfolded p]] rs False show ?thesis
      by auto
  qed
qed

text \<open>
  Claim C9. A call of \<open>detect_language\<close> leaves the tracker as it was, and returns the
  cached hypothesis, whenever the text is shorter than ten characters, or a hypothesis
  is cached and the last successful detection is less than \<open>cache_expiry\<close> (60 seconds)
  old, or the service call fails, or its confidence does not exceed
  \<open>confidence_threshold\<close> (0.7). The cached hypothesis changes only to a result of the
  service whose confidence exceeds the threshold. Once a hypothesis is cached, one is
  cached after the call too, and it is what the call returns.
\<close>

theorem detect_language_keeps_hypothesis:
  assumes "detect_language post now self text = (r, self', posted)"
  shows "(length text < 10
           \<or> (cached_language self \<noteq> None
                \<and> now - last_detection_time self < cache_expiry self)
           \<or> reply_hypothesis (post text) = None
           \<or> (\<exists>g. reply_hypothesis (post text) = Some g
                 \<and> confidence g \<le> confidence_threshold self)
          \<longrightarrow> self' = self \<and> r = Inr (cached_or_default self))
       \<and> (cached_language self' \<noteq> cached_language self \<longrightarrow>
            (\<exists>g. reply_hypothesis (post text) = Some g
                \<and> confidence g > confidence_threshold self
                \<and> cached_language self' = Some g))
       \<and> (\<forall>h. cached_language self = Some h \<longrightarrow>
            (\<exists>h'. cached_language self' = Some h' \<and> r = Inr h'))"
proof -
  have short: "length text < 10 \<Longrightarrow> length (strip text) < 10"
    using length_strip_le [of "text"] by simp
  from detect_language_cases [OF assms] show ?thesis
  proof
    assume "r = Inr (cached_or_default self) \<and> self' = self"
    then show ?thesis
      by (auto simp: cached_or_default_def)
  next
    assume "\<not> length (strip text) < 10
            \<and> \<not> (now - last_detection_time self < cache_expiry self
                   \<and> cached_language self \<noteq> None)
            \<and> (\<exists>g. reply_hypothesis (post text) = Some g
                  \<and> confidence g > confidence_threshold self
                  \<and> r = Inr g
                  \<and> self' = self\<lparr>cached_language := Some g, last_detection_time := now\<rparr>)"
    with short show ?thesis
      by auto
  qed
qed

text \<open>
  At clock reading 120 the French tracker is inside its cooldown: a long Spanish
  sentence changes nothing. At clock reading 1000 the cooldown is over and the service's
  Spanish result, of confidence 0.9, replaces the French hypothesis.
\<close>

theorem detect_language_keeps_hypothesis_witness:
  "detect_language (language_service working_environment) 120 french_tracker
      ''Buenos dias a todos''
     = (Inr \<lparr>language_code = ''fr'', confidence = 0.95\<rparr>, french_tracker, [])
   \<and> cached_language french_tracker \<noteq> None
   \<and> cache_expiry french_tracker = 60
   \<and> confidence_threshold french_tracker = 0.7
   \<and> 120 - last_detection_time french_tracker < cache_expiry french_tracker
   \<and> cached_or_default french_tracker = \<lparr>language_code = ''fr'', confidence = 0.95\<rparr>
   \<and> detect_language (language_service working_environment) 1000 french_tracker
        ''Buenos dias a todos''
     = (Inr \<lparr>language_code = ''es'', confidence = 0.9\<rparr>,
        french_tracker\<lparr>cached_language := Some \<lparr>language_code = ''es'', confidence = 0.9\<rparr>,
                        last_detection_time := 1000\<rparr>,
        [''Buenos dias a todos''])
   \<and> reply_hypothesis (language_service working_environment ''Buenos dias a todos'')
     = Some \<lparr>language_code = ''es'', confidence = 0.9\<rparr>"
  using detect_language_keeps_hypothesis
    [of "language_service working_environment" 120 french_tracker "''Buenos dias a todos''"
        "Inr \<lparr>language_code = ''fr'', confidence = 0.95\<rparr>" french_tracker "[]"]
    detect_language_keeps_hypothesis
    [of "language_service working_environment" 1000 french_tracker "''Buenos dias a todos''"
        "Inr \<lparr>language_code = ''es'', confidence = 0.9\<rparr>"
        "french_tracker\<lparr>cached_language := Some \<lparr>language_code = ''es'', confidence = 0.9\<rparr>,
                        last_detection_time := 1000\<rparr>"
        "[''Buenos dias a todos'']"]
  by (simp add: detect_language_def detect_response_def french_tracker_def
        LanguageDetection_init_def working_environment_def cached_or_default_def
        reply_hypothesis_def strip_def isspace_def Let_def)

text \<open>
  Claim C10. \<open>detect_language\<close> returns a hypothesis for every text, every state of the
  tracker and every behaviour of the service: no exception leaves it. With nothing
  cached, it returns the default hypothesis \<^verbatim>\<open>{"language_code": "en", "confidence": 1.0}\<close>
  whenever the text is shorter than ten characters, the service call fails, or the
  service's confidence does not exceed the threshold.
\<close>

theorem detect_language_total:
  "(\<exists>h. fst (detect_language post now self text) = Inr h)
   \<and> (cached_language self = None
        \<and> (length text < 10
            \<or> reply_hypothesis (post text) = None
            \<or> (\<exists>g. reply_hypothesis (post text) = Some g
                  \<and> confidence g \<le> confidence_threshold self))
       \<longrightarrow> fst (detect_language post now self text) = Inr default_hypothesis)"
proof -
  obtain r s p where d: "detect_language post now self text = (r, s, p)"
    by (cases "detect_language post now self text")
  have short: "length text < 10 \<Longrightarrow> length (strip text) < 10"
    using length_strip_le [of "text"] by simp
  from detect_language_cases [OF d] short
  have "(\<exists>h. r = Inr h)
      \<and> (cached_language self = None
        \<and> (length text < 10
            \<or> reply_hypothesis (post text) = None
            \<or> (\<exists>g. reply_hypothesis (post text) = Some g
                  \<and> confidence g \<le> confidence_threshold self))
       \<longrightarrow> r = Inr default_hypothesis)"
    by (auto simp: cached_or_default_def)
  with d show ?thesis
    by simp
qed

text \<open>
  A new tracker meets a text of two characters, then a long text while the service is
  down, then a long text that the service rates at 0.5: the default each time.
\<close>

theorem detect_language_total_witness:
  "cached_language LanguageDetection_init = None
   \<and> fst (detect_language (\<lambda>t. DetectRaised) 1000 LanguageDetection_init ''hi'')
       = Inr default_hypothesis
   \<and> reply_hypothesis DetectRaised = None
   \<and> fst (detect_language (\<lambda>t. DetectRaised) 1000 LanguageDetection_init
            ''Buenos dias a todos'')
       = Inr default_hypothesis
   \<and> fst (detect_language
            (\<lambda>t. DetectReply 200 (Some (Documents (Some
               [Some \<lparr>iso6391Name = Some ''es'', confidenceScore = Some 0.5\<rparr>]))))
            1000 LanguageDetection_init ''Buenos dias a todos'')
       = Inr default_hypothesis"
  using detect_language_total [of "\<lambda>t. DetectRaised" 1000 LanguageDetection_init "''hi''"]
    detect_language_total
      [of "\<lambda>t. DetectRaised" 1000 LanguageDetection_init "''Buenos dias a todos''"]
    detect_language_total
      [of "\<lambda>t. DetectReply 200 (Some (Documents (Some
               [Some \<lparr>iso6391Name = Some ''es'', confidenceScore = Some 0.5\<rparr>])))"
          1000 LanguageDetection_init "''Buenos dias a todos''"]
  by (simp add: LanguageDetection_init_def reply_hypothesis_def)


section \<open>Properties of the orchestrator\<close>

lemma init_subtitle_renderer_value:
  "init_subtitle_renderer =
     \<lparr>fade_timeout = 5, fade_delay_ms = 5000, max_lines = 2, subtitles = [],
      fade_timer = None,
      root = Some \<lparr>after_serial = 0, after_pending = [], withdrawn = False\<rparr>,
      subtitle_labels = [[], []]\<rparr>"
  by (simp add: init_subtitle_renderer_def initialize_def SubtitleRenderer_init_def
        numeral_2_eq_2)

lemma running_system_value:
  "running_system =
     \<lparr>current_language = ''en'', is_running = True,
      audio_capture = \<lparr>stream = True, is_recording = True\<rparr>,
      speech_to_text = \<lparr>recognizer = True, is_recognizing = True,
                        speech_recognition_language = ''en''\<rparr>,
      language_detection = LanguageDetection_init,
      translation = \<lparr>target_language = ''es''\<rparr>,
      subtitle_renderer = Some init_subtitle_renderer,
      calls = [InitializeMicrophoneCapture, StartRecording, StartRecognition]\<rparr>"
  by (simp add: running_system_def idle_system_def start_def working_environment_def
        RealTimeSubtitleSystem_init_def initialize_microphone_capture_def
        start_recording_def start_recognition_def)






text \<open>
  For comparison, a final transcript of more than 15 characters in the same system: the
  tracker is asked, finds Spanish, the recognizer is stopped and set to \<^verbatim>\<open>es-ES\<close>, and
  the text, now in the target language, is shown as it is.
\<close>

lemma final_transcript_example:
  "recognized_callback (speech_to_text running_system) True ''Buenos dias a todos''
     = Some \<lparr>result_text = ''Buenos dias a todos'', is_final = True,
             result_language_code = ''en''\<rparr>
   \<and> calls (snd (handle_transcription working_environment
        \<lparr>result_text = ''Buenos dias a todos'', is_final = True,
         result_language_code = ''en''\<rparr> running_system))
       = calls running_system @
           [DetectLanguage ''Buenos dias a todos'', SetLanguage ''es'',
            TranslateText ''Buenos dias a todos'' ''es'', ShowSubtitle ''Buenos dias a todos'']
   \<and> speech_to_text (snd (handle_transcription working_environment
        \<lparr>result_text = ''Buenos dias a todos'', is_final = True,
         result_language_code = ''en''\<rparr> running_system))
       = \<lparr>recognizer = True, is_recognizing = False, speech_recognition_language = ''es-ES''\<rparr>"
  by (simp add: running_system_value init_subtitle_renderer_value recognized_callback_def
        handle_transcription_def detect_step_def detect_language_def detect_response_def
        LanguageDetection_init_def translate_and_show_def translate_text_def
        working_environment_def strip_def isspace_def set_language_def stop_recognition_def
        language_map_def show_subtitle_def cancel_fade_timer_def
        update_subtitle_display_def Let_def)




text \<open>
  Claim C4, as the code has it. When the system is not running, the microphone opens
  and the speech SDK raises in \<open>start_recognition\<close>, \<open>start\<close> lets the exception pass to
  its caller and undoes nothing: the audio capture keeps recording, \<open>is_running\<close> stays
  false, and the calls made are those to open the microphone, to start recording and to
  start recognition, with no call to stop recording.
\<close>

theorem failed_start_keeps_recording:
  assumes "\<not> is_running self" and "microphone_opens env" and "speech_sdk env \<noteq> SdkStarts"
  shows "fst (start env self) = Inl SpeechSdkError
     \<and> is_recording (audio_capture (snd (start env self)))
     \<and> \<not> is_running (snd (start env self))
     \<and> calls (snd (start env self)) =
          calls self @ [InitializeMicrophoneCapture, StartRecording, StartRecognition]"
  using assms
  by (cases "speech_sdk env")
     (auto simp: start_def Let_def initialize_microphone_capture_def start_recording_def
        start_recognition_def split: prod.splits)

theorem failed_start_keeps_recording_witness:
  "\<not> is_running idle_system
   \<and> microphone_opens (working_environment\<lparr>speech_sdk := CreateRaises\<rparr>)
   \<and> speech_sdk (working_environment\<lparr>speech_sdk := CreateRaises\<rparr>) \<noteq> SdkStarts
   \<and> fst (start (working_environment\<lparr>speech_sdk := CreateRaises\<rparr>) idle_system)
       = Inl SpeechSdkError
   \<and> is_recording (audio_capture
        (snd (start (working_environment\<lparr>speech_sdk := CreateRaises\<rparr>) idle_system)))"
  using failed_start_keeps_recording
    [of idle_system "working_environment\<lparr>speech_sdk := CreateRaises\<rparr>"]
  by (simp add: idle_system_def RealTimeSubtitleSystem_init_def working_environment_def)

text \<open>
  The claim as stated fails when \<^verbatim>\<open>start_continuous_recognition\<close> raises: \<open>start\<close>
  ends with the exception while the audio capture is recording, and no call to stop
  recording has been made.
\<close>

theorem failed_start_counterexample:
  "fst (start (working_environment\<lparr>speech_sdk := StartRaises\<rparr>) idle_system)
       = Inl SpeechSdkError
   \<and> audio_capture (snd (start (working_environment\<lparr>speech_sdk := StartRaises\<rparr>) idle_system))
       = \<lparr>stream = True, is_recording = True\<rparr>
   \<and> calls (snd (start (working_environment\<lparr>speech_sdk := StartRaises\<rparr>) idle_system))
       = [InitializeMicrophoneCapture, StartRecording, StartRecognition]
   \<and> StopRecording \<notin> set (calls
        (snd (start (working_environment\<lparr>speech_sdk := StartRaises\<rparr>) idle_system)))"
  by (simp add: idle_system_def RealTimeSubtitleSystem_init_def working_environment_def
        start_def initialize_microphone_capture_def start_recording_def
        start_recognition_def)


section \<open>Properties of the renderer\<close>

lemma slice_from_last: "0 < m \<Longrightarrow> slice_from (- m) xs = drop (length xs - nat m) xs"
  by (auto simp: slice_from_def intro: arg_cong [where f = "\<lambda>k. drop k xs"])

lemma subtitles_update_display: "subtitles (update_subtitle_display s) = subtitles s"
  by (simp add: update_subtitle_display_def)

lemma show_subtitle_state:
  assumes "fade_timer self = None \<or> root self \<noteq> None"
  shows "subtitles (snd (show_subtitle now text speaker self)) =
           (let xs = subtitles self @
                       [\<lparr>sub_text = text, sub_speaker = speaker, timestamp = now\<rparr>]
            in if int (length xs) > max_lines self then slice_from (- max_lines self) xs
               else xs)"
    and "fade_timer (snd (show_subtitle now text speaker self)) = None"
    and "max_lines (snd (show_subtitle now text speaker self)) = max_lines self"
  using assms
  by (auto simp: show_subtitle_def cancel_fade_timer_def Let_def update_subtitle_display_def
        split: option.splits)

lemma show_subtitle_bounded:
  assumes "0 < max_lines self" and "fade_timer self = None \<or> root self \<noteq> None"
  shows "int (length (subtitles (snd (show_subtitle now text speaker self)))) \<le> max_lines self"
  using assms by (auto simp: show_subtitle_state(1) Let_def slice_from_last)

lemma drop_window:
  "drop (length (drop (length xs - n) xs @ ys) - n) (drop (length xs - n) xs @ ys)
     = drop (length (xs @ ys) - n) (xs @ ys)"
proof (cases "length xs \<le> n")
  case True
  then show ?thesis by simp
next
  case False
  then have "length ys + (length xs - n) = length xs + length ys - n" by simp
  with False show ?thesis by simp
qed

lemma renderer_ABC_value:
  "renderer_ABC =
     \<lparr>fade_timeout = 5, fade_delay_ms = 5000, max_lines = 2,
      subtitles = [\<lparr>sub_text = ''B'', sub_speaker = None, timestamp = 1\<rparr>,
                   \<lparr>sub_text = ''C'', sub_speaker = None, timestamp = 2\<rparr>],
      fade_timer = None,
      root = Some \<lparr>after_serial = 0, after_pending = [], withdrawn = False\<rparr>,
      subtitle_labels = [''B'', ''C'']\<rparr>"
  by (simp add: renderer_ABC_def init_subtitle_renderer_value show_subtitle_def
        cancel_fade_timer_def update_subtitle_display_def display_text_def slice_from_def
        Let_def)

text \<open>
  Claim C5: the number of caption lines never exceeds \<open>max_lines\<close>, the oldest line
  going first. The code keeps the bound for every \<open>max_lines\<close> of at least one (the
  theorem after this one) and breaks it for \<open>max_lines = 0\<close>: there
  \<^verbatim>\<open>self.subtitles[-self.max_lines:]\<close> is \<^verbatim>\<open>self.subtitles[0:]\<close>, the whole list, and
  nothing is evicted. One caption shown by a renderer of zero lines stays in the list,
  and a second one joins it.
\<close>

theorem show_subtitle_zero_max_lines:
  "max_lines (snd (initialize None (SubtitleRenderer_init 5 5000 0))) = 0
   \<and> visible (snd (show_subtitle 0 ''A'' None
        (snd (initialize None (SubtitleRenderer_init 5 5000 0))))) = [''A'']
   \<and> visible (show_each [(0, ''A''), (1, ''B'')]
        (snd (initialize None (SubtitleRenderer_init 5 5000 0)))) = [''A'', ''B'']"
  by (simp add: initialize_def SubtitleRenderer_init_def show_subtitle_def
        cancel_fade_timer_def update_subtitle_display_def slice_from_def visible_def Let_def)

text \<open>
  The bound and the eviction order for \<open>max_lines\<close> of at least one. From a renderer
  that holds at most \<open>max_lines\<close> lines (and whose fade timer, if set, belongs to a
  window), showing captions one after another leaves the last \<open>max_lines\<close> of all
  lines, old and new, in their order of insertion; so the list never grows beyond
  \<open>max_lines\<close>, and \<open>max_lines + 1\<close> insertions into an empty renderer drop the first.
\<close>

theorem show_subtitle_fifo:
  assumes "0 < max_lines self" and "fade_timer self = None \<or> root self \<noteq> None"
    and "int (length (subtitles self)) \<le> max_lines self"
  shows "visible (show_each evs self) =
           drop (length (visible self @ map snd evs) - nat (max_lines self))
             (visible self @ map snd evs)
       \<and> int (length (subtitles (show_each evs self))) \<le> max_lines self"
  using assms
proof (induction evs arbitrary: self)
  case Nil
  then show ?case by (simp add: visible_def)
next
  case (Cons ev evs)
  obtain now caption where ev: "ev = (now, caption)"
    by (cases ev)
  let ?s = "snd (show_subtitle now caption None self)"
  have v: "visible ?s = drop (length (visible self @ [caption]) - nat (max_lines self))
                          (visible self @ [caption])"
    using Cons.prems
    by (auto simp: visible_def show_subtitle_state(1) Let_def slice_from_last drop_map)
  have m: "max_lines ?s = max_lines self"
    using Cons.prems by (simp add: show_subtitle_state(3))
  have ih: "visible (show_each evs ?s) =
              drop (length (visible ?s @ map snd evs) - nat (max_lines ?s))
                (visible ?s @ map snd evs)
          \<and> int (length (subtitles (show_each evs ?s))) \<le> max_lines ?s"
    using Cons.prems
    by (intro Cons.IH) (simp_all add: show_subtitle_state(2,3) show_subtitle_bounded)
  have "drop (length (visible ?s @ map snd evs) - nat (max_lines self))
          (visible ?s @ map snd evs)
        = drop (length ((visible self @ [caption]) @ map snd evs) - nat (max_lines self))
            ((visible self @ [caption]) @ map snd evs)"
    unfolding v by (rule drop_window)
  with ih m show ?case
    by (simp add: ev)
qed

theorem show_subtitle_fifo_witness:
  "0 < max_lines init_subtitle_renderer
   \<and> int (length (subtitles init_subtitle_renderer)) \<le> max_lines init_subtitle_renderer
   \<and> visible (show_each [(0, ''A''), (1, ''B''), (2, ''C'')] init_subtitle_renderer)
       = [''B'', ''C'']"
  using show_subtitle_fifo [of init_subtitle_renderer "[(0, ''A''), (1, ''B''), (2, ''C'')]"]
  by (simp add: init_subtitle_renderer_value visible_def numeral_2_eq_2)

text \<open>
  What the fade callback does when it runs: the oldest line goes, whatever the number
  of lines.
\<close>

lemma fade_oldest_subtitle_removes_oldest:
  "subtitles (snd (fade_oldest_subtitle now self)) = tl (subtitles self)"
  by (auto simp: fade_oldest_subtitle_def Let_def update_subtitle_display_def tk_after_def
        split: option.splits)

text \<open>
  Claim C6: a caption line is evicted no earlier than the fade timeout after its
  insertion and, with no new insertion, no later than the timeout plus a little; with
  two lines at most and a timeout of five seconds, \<^verbatim>\<open>A\<close>, \<^verbatim>\<open>B\<close>, \<^verbatim>\<open>C\<close> shown at 0, 1
  and 2 leave \<^verbatim>\<open>B\<close> and \<^verbatim>\<open>C\<close>, then \<^verbatim>\<open>C\<close> at time 6, then nothing at time 7.
  The code breaks it. \<open>show_subtitle\<close> raises before the statements under
  \<^verbatim>\<open># Set fade timeout\<close>, so it never registers the fade callback: the callbacks
  pending after a call are among those pending before it. A single caption shown at
  time 0 is therefore still there whenever the Tk loop looks for a due callback, and in
  the example \<^verbatim>\<open>B\<close> and \<^verbatim>\<open>C\<close> are still there at time 6, at time 7 and at every
  other time.
\<close>

theorem show_subtitle_never_fades:
  "set (pending_callbacks (snd (show_subtitle now text speaker self)))
     \<subseteq> set (pending_callbacks self)
   \<and> visible (snd (run_due_timer t (show_each [(0, ''A'')] init_subtitle_renderer)))
       = [''A'']
   \<and> visible (show_each [(0, ''A''), (1, ''B''), (2, ''C'')] init_subtitle_renderer)
       = [''B'', ''C'']
   \<and> visible (snd (run_due_timer t
        (show_each [(0, ''A''), (1, ''B''), (2, ''C'')] init_subtitle_renderer)))
       = [''B'', ''C'']"
proof -
  have registers_nothing:
    "set (pending_callbacks (snd (show_subtitle now text speaker self)))
       \<subseteq> set (pending_callbacks self)"
    by (auto simp: show_subtitle_def cancel_fade_timer_def Let_def update_subtitle_display_def
          tk_after_cancel_def pending_callbacks_def split: option.splits)
  have one: "visible (snd (run_due_timer t (show_each [(0, ''A'')] init_subtitle_renderer)))
               = [''A'']"
    by (simp add: init_subtitle_renderer_value show_subtitle_def cancel_fade_timer_def
          update_subtitle_display_def run_due_timer_def visible_def Let_def)
  have three: "visible (show_each [(0, ''A''), (1, ''B''), (2, ''C'')] init_subtitle_renderer)
                 = [''B'', ''C'']
             \<and> visible (snd (run_due_timer t
                  (show_each [(0, ''A''), (1, ''B''), (2, ''C'')] init_subtitle_renderer)))
                 = [''B'', ''C'']"
    by (simp add: init_subtitle_renderer_value show_subtitle_def cancel_fade_timer_def
          update_subtitle_display_def slice_from_def run_due_timer_def visible_def Let_def)
  from registers_nothing one three show ?thesis
    by simp
qed

end
